theory Spec2Isabelle
  imports Main "HOL-Library.Monad_Syntax"
begin

section \<open>Strings: the parts of Go's \<open>strings\<close> package the provider calls\<close>

text \<open>
  A Go string is a sequence of bytes, so it is modelled as \<open>string\<close> (a list of 8-bit
  \<open>char\<close>s). \<open>strings.TrimSpace\<close> removes leading and trailing white space as
  \<open>unicode.IsSpace\<close> defines it, decoding UTF-8. A byte sequence decodes to a rune
  only when it is that rune's shortest encoding, and an invalid byte decodes to U+FFFD,
  which is no space; so a leading (trailing) white-space rune is exactly a prefix
  (suffix) that is the UTF-8 encoding of one of the white-space code points.
\<close>

definition asciiSpace :: "char \<Rightarrow> bool" where
  "asciiSpace c = (c = CHR 0x09 \<or> c = CHR 0x0A \<or> c = CHR 0x0B \<or> c = CHR 0x0C
                    \<or> c = CHR 0x0D \<or> c = CHR 0x20)"

text \<open>U+0085 and U+00A0, encoded on two bytes.\<close>

definition space2 :: "char \<Rightarrow> char \<Rightarrow> bool" where
  "space2 a b = (a = CHR 0xC2 \<and> (b = CHR 0x85 \<or> b = CHR 0xA0))"

text \<open>
  U+1680, U+2000 to U+200A, U+2028, U+2029, U+202F, U+205F and U+3000, encoded on
  three bytes.
\<close>

definition space3 :: "char \<Rightarrow> char \<Rightarrow> char \<Rightarrow> bool" where
  "space3 a b c =
     ((a = CHR 0xE1 \<and> b = CHR 0x9A \<and> c = CHR 0x80)
    \<or> (a = CHR 0xE2 \<and> b = CHR 0x80 \<and>
         (c \<in> set [CHR 0x80, CHR 0x81, CHR 0x82, CHR 0x83, CHR 0x84, CHR 0x85, CHR 0x86,
                    CHR 0x87, CHR 0x88, CHR 0x89, CHR 0x8A, CHR 0xA8, CHR 0xA9, CHR 0xAF]))
    \<or> (a = CHR 0xE2 \<and> b = CHR 0x81 \<and> c = CHR 0x9F)
    \<or> (a = CHR 0xE3 \<and> b = CHR 0x80 \<and> c = CHR 0x80))"

text \<open>The width in bytes of the white-space rune the string starts with; 0 when it starts with none.\<close>

fun leadingSpace :: "string \<Rightarrow> nat" where
  "leadingSpace [] = 0"
| "leadingSpace [a] = (if asciiSpace a then 1 else 0)"
| "leadingSpace [a, b] = (if asciiSpace a then 1 else if space2 a b then 2 else 0)"
| "leadingSpace (a # b # c # s) =
     (if asciiSpace a then 1 else if space2 a b then 2 else if space3 a b c then 3 else 0)"

text \<open>The same for the rune the string ends with; the argument is the string reversed.\<close>

fun trailingSpace :: "string \<Rightarrow> nat" where
  "trailingSpace [] = 0"
| "trailingSpace [a] = (if asciiSpace a then 1 else 0)"
| "trailingSpace [b, a] = (if asciiSpace b then 1 else if space2 a b then 2 else 0)"
| "trailingSpace (c # b # a # s) =
     (if asciiSpace c then 1 else if space2 b c then 2 else if space3 a b c then 3 else 0)"

function TrimLeftSpace :: "string \<Rightarrow> string" where
  "TrimLeftSpace s =
     (if leadingSpace s = 0 then s else TrimLeftSpace (drop (leadingSpace s) s))"
  by pat_completeness auto
termination
proof (relation "measure length")
  fix s :: string
  assume "leadingSpace s \<noteq> 0"
  then have "s \<noteq> []" by auto
  with \<open>leadingSpace s \<noteq> 0\<close>
  show "(drop (leadingSpace s) s, s) \<in> measure length" by simp
qed simp

declare TrimLeftSpace.simps [simp del]

function TrimRightRev :: "string \<Rightarrow> string" where
  "TrimRightRev r =
     (if trailingSpace r = 0 then r else TrimRightRev (drop (trailingSpace r) r))"
  by pat_completeness auto
termination
proof (relation "measure length")
  fix r :: string
  assume "trailingSpace r \<noteq> 0"
  then have "r \<noteq> []" by auto
  with \<open>trailingSpace r \<noteq> 0\<close>
  show "(drop (trailingSpace r) r, r) \<in> measure length" by simp
qed simp

declare TrimRightRev.simps [simp del]

definition TrimRightSpace :: "string \<Rightarrow> string" where
  "TrimRightSpace s = rev (TrimRightRev (rev s))"

text \<open>\<open>strings.TrimSpace\<close>\<close>

definition TrimSpace :: "string \<Rightarrow> string" where
  "TrimSpace s = TrimRightSpace (TrimLeftSpace s)"

text \<open>
  \<open>strings.Split(s, sep)\<close> for a separator of one byte (the provider splits at
  \<open>" "\<close>): the text before the first separator, then the split of what follows it.
  The result is never empty; an empty string splits into one empty piece.
\<close>

function Split :: "string \<Rightarrow> char \<Rightarrow> string list" where
  "Split s sep =
     (case dropWhile (\<lambda>c. c \<noteq> sep) s of
        [] \<Rightarrow> [s]
      | _ # rest \<Rightarrow> takeWhile (\<lambda>c. c \<noteq> sep) s # Split rest sep)"
  by pat_completeness auto
termination
proof (relation "measure (\<lambda>(s, sep). length s)")
  fix s :: string and sep x :: char and rest :: string
  assume "dropWhile (\<lambda>c. c \<noteq> sep) s = x # rest"
  then have "length rest < length (dropWhile (\<lambda>c. c \<noteq> sep) s)" by simp
  also have "\<dots> \<le> length s" by (rule length_dropWhile_le)
  finally show "((rest, sep), (s, sep)) \<in> measure (\<lambda>(s, sep). length s)" by simp
qed simp

declare Split.simps [simp del]

text \<open>
  \<open>cleanVersion\<close>: the first space-separated piece of the trimmed text. The source
  indexes the split at 0, which cannot be out of range (\<open>Split_nonempty\<close> below).
\<close>

definition cleanVersion :: "string \<Rightarrow> string" where
  "cleanVersion version = hd (Split (TrimSpace version) CHR '' '')"

section \<open>Formatting: the fragment of Go's \<open>fmt\<close> the provider reaches\<close>

text \<open>
  \<open>fmt.Sprintf(format, a...)\<close> for operands that print as text under \<open>%s\<close>
  (strings, errors through \<open>Error()\<close>, the version through \<open>String()\<close>), given
  as that text. The function follows \<open>doPrintf\<close>: bytes other than \<open>%\<close> are copied;
  after a \<open>%\<close> the flags \<open>#0+- \<close> are skipped; the format ending there prints
  \<open>%!(NOVERB)\<close>; the verb \<open>%\<close> prints a percent sign and takes no operand; a verb
  with no operand left prints \<open>%!\<close>, the verb and \<open>(MISSING)\<close>; the verb \<open>s\<close> prints the
  next operand (flags without a width do not change it).
  The result is \<open>None\<close> for what this model leaves out: an argument index
  (\<open>[\<close>), a width or a precision (a digit, \<open>*\<close>, \<open>.\<close>), a verb that is not ASCII, a
  verb other than \<open>s\<close> applied to an operand, and operands left over at the end (their
  \<open>%!(EXTRA ...)\<close> text names the operands' Go types).
\<close>

definition isFlag :: "char \<Rightarrow> bool" where
  "isFlag c = (c \<in> set ''#0+- '')"

definition notModelled :: "char \<Rightarrow> bool" where
  "notModelled c = (c \<in> set ''[*.123456789'' \<or> digit7 c)"

fun doPrintf :: "string \<Rightarrow> string list \<Rightarrow> string option"
  and doVerb :: "string \<Rightarrow> string list \<Rightarrow> string option" where
  "doPrintf [] a = (if a = [] then Some [] else None)"
| "doPrintf (c # format) a =
     (if c = CHR ''%'' then doVerb format a
      else map_option ((#) c) (doPrintf format a))"
| "doVerb [] a = (if a = [] then Some ''%!(NOVERB)'' else None)"
| "doVerb (c # format) a =
     (if isFlag c then doVerb format a
      else if c = CHR ''%'' then map_option ((#) CHR ''%'') (doPrintf format a)
      else if notModelled c then None
      else (case a of
              [] \<Rightarrow> map_option ((@) (''%!'' @ [c] @ ''(MISSING)'')) (doPrintf format a)
            | x # a' \<Rightarrow>
                if c = CHR ''s'' then map_option ((@) x) (doPrintf format a') else None))"

definition Sprintf :: "string \<Rightarrow> string list \<Rightarrow> string option" where
  "Sprintf format a = doPrintf format a"

section \<open>Errors\<close>

text \<open>
  A Go \<open>error\<close> is an interface value; the provider looks at its identity
  (\<open>err == exec.ErrNotFound\<close>), its dynamic type (\<open>err.(*exec.Error)\<close>,
  \<open>err.(*os.PathError)\<close>, \<open>os.IsNotExist\<close>) and its text (\<open>%s\<close>). One constructor
  stands for each kind it tells apart; \<open>None\<close> of \<open>go_error option\<close> is \<open>nil\<close>.
\<close>

datatype go_error =
    ErrNotFound                         \<comment> \<open>the value \<open>exec.ErrNotFound\<close>\<close>
  | ENOENT                              \<comment> \<open>\<open>syscall.ENOENT\<close>\<close>
  | ExecError string                    \<comment> \<open>any \<open>*exec.Error\<close>, with its text\<close>
  | PathError string string go_error    \<comment> \<open>\<open>*os.PathError{Op, Path, Err}\<close>\<close>
  | ExitError int string                \<comment> \<open>\<open>*exec.ExitError\<close>: exit code and text\<close>
  | FmtError string                     \<comment> \<open>made by \<open>fmt.Errorf\<close>, with its text\<close>
  | invalidTokenError string            \<comment> \<open>\<open>&invalidTokenError{token}\<close>\<close>
  | SemverError string                  \<comment> \<open>made by the \<open>semver\<close> library, with its text\<close>
  | OtherError string                   \<comment> \<open>an error of any other type, with its text\<close>

text \<open>
  \<open>err.Error()\<close>. The text of an \<open>invalidTokenError\<close> is declared outside the
  source at hand, hence \<open>None\<close>.
\<close>

fun Error :: "go_error \<Rightarrow> string option" where
  "Error ErrNotFound = Some ''executable file not found in $PATH''"
| "Error ENOENT = Some ''no such file or directory''"
| "Error (ExecError text) = Some text"
| "Error (PathError Op Path Err) = map_option (\<lambda>m. Op @ '' '' @ Path @ '': '' @ m) (Error Err)"
| "Error (ExitError code text) = Some text"
| "Error (FmtError text) = Some text"
| "Error (invalidTokenError token) = None"
| "Error (SemverError text) = Some text"
| "Error (OtherError text) = Some text"

definition Errorf :: "string \<Rightarrow> string list \<Rightarrow> go_error option" where
  "Errorf format a = map_option FmtError (Sprintf format a)"

text \<open>\<open>os.IsNotExist\<close>: the error, unwrapped from a path error, is \<open>ENOENT\<close>.\<close>

fun IsNotExist :: "go_error \<Rightarrow> bool" where
  "IsNotExist (PathError Op Path Err) = (Err = ENOENT)"
| "IsNotExist e = (e = ENOENT)"

fun isExecError :: "go_error \<Rightarrow> bool" where
  "isExecError (ExecError text) = True"
| "isExecError e = False"

fun isPathError :: "go_error \<Rightarrow> bool" where
  "isPathError (PathError Op Path Err) = True"
| "isPathError e = False"

text \<open>
  \<open>checkCommandErr\<close>. The outer \<open>option\<close> of the result is the model's (a format
  outside the fragment of \<open>Sprintf\<close>); the inner one is Go's \<open>error\<close>.
\<close>

definition checkCommandErr :: "go_error option \<Rightarrow> go_error option option" where
  "checkCommandErr err =
     (case err of
        None \<Rightarrow> Some None
      | Some e \<Rightarrow>
          if e = ErrNotFound then map_option Some (Errorf ''could not find Snyk binary'' [])
          else if isExecError e then map_option Some (Errorf ''could not find Snyk binary'' [])
          else if isPathError e then map_option Some (Errorf ''could not find Snyk binary'' [])
          else Some (Some e))"

section \<open>The provider and the world it runs in\<close>

datatype Context = Context nat

datatype Writer = Writer nat | Buffer nat | Discard | NoWriter

text \<open>
  Modelled from the spec: the declaration of \<open>Options\<close> is not in the source at hand;
  the spec lists its fields as the scanner binary path, the execution context, the flag
  list and the output streams, and the provider reads them as \<open>path\<close>,
  \<open>context\<close>, \<open>flags\<close>, \<open>out\<close> and \<open>err\<close>.
\<close>

record Options =
  "context" :: Context
  path :: string
  flags :: "string list"
  out :: Writer
  err :: Writer

text \<open>\<open>snykProvider\<close> is a struct with the one embedded field \<open>Options\<close>.\<close>

type_synonym snykProvider = Options

text \<open>
  \<open>exec.Cmd\<close>, as far as the provider sets it: the context, the arguments (the first
  is the binary, from which the \<open>exec\<close> package resolves \<open>Path\<close>), the environment
  (empty for \<open>nil\<close>: the child inherits the parent's) and the two output streams.
\<close>

record Cmd =
  Ctx :: "Context option"
  Args :: "string list"
  Env :: "string list"
  Stdout :: Writer
  Stderr :: Writer

text \<open>What \<open>cmd.Run()\<close> did: the bytes the child wrote on each stream and the error.\<close>

record RunResult =
  stdout :: string
  stderr :: string
  runErr :: "go_error option"

text \<open>
  Everything the provider reads from outside itself is a field of the world: the
  process environment, the home directory, the file system, the library calls
  \<open>filepath.Join\<close>, \<open>json.Unmarshal\<close> (into a \<open>snykConfig\<close>, giving its \<open>API\<close>
  field) and \<open>uuid.Parse\<close> (its error), the subprocesses, and \<open>getToken\<close>.
\<close>

text \<open>
  Modelled from the spec: \<open>getToken\<close> is a function of this package that is not in
  the source at hand; the spec says that it requests a token from an external identity
  service, so it is the field \<open>getToken\<close> of the world, giving a token or an error.
\<close>

record World =
  Environ :: "string list"
  homedirDir :: "go_error + string"
  Join :: "string list \<Rightarrow> string"
  ReadFile :: "string \<Rightarrow> go_error + string"
  Unmarshal :: "string \<Rightarrow> go_error + string"
  uuidParse :: "string \<Rightarrow> go_error option"
  getToken :: "Options \<Rightarrow> go_error + string"
  Run :: "Cmd \<Rightarrow> RunResult"

text \<open>
  An option function takes a pointer to the provider and returns an error: it gives
  the provider as it left it, and the error.
\<close>

type_synonym SnykProviderOps = "snykProvider \<Rightarrow> snykProvider \<times> go_error option"

fun applyOps :: "snykProvider \<Rightarrow> SnykProviderOps list \<Rightarrow> snykProvider option \<times> go_error option" where
  "applyOps provider [] = (Some provider, None)"
| "applyOps provider (snykOp # snykOps) =
     (case snykOp provider of
        (provider', Some e) \<Rightarrow> (None, Some e)
      | (provider', None) \<Rightarrow> applyOps provider' snykOps)"

definition NewSnykProvider ::
  "Options \<Rightarrow> SnykProviderOps list \<Rightarrow> snykProvider option \<times> go_error option" where
  "NewSnykProvider defaultProvider snykOps = applyOps defaultProvider snykOps"

definition newCommand :: "World \<Rightarrow> snykProvider \<Rightarrow> string list \<Rightarrow> Cmd" where
  "newCommand w s arg =
     \<lparr>Ctx = Some (context s), Args = path s # arg,
      Env = Environ w @ [''NO_UPDATE_NOTIFIER=true'',
                         ''SNYK_CFG_DISABLESUGGESTIONS=true'',
                         ''SNYK_INTEGRATION_NAME=DOCKER_DESKTOP''],
      Stdout = NoWriter, Stderr = NoWriter\<rparr>"

text \<open>
  The operations give the commands they ran, in order, beside what the source returns.
\<close>

definition Authenticate ::
  "World \<Rightarrow> snykProvider \<Rightarrow> string \<Rightarrow> (Cmd list \<times> go_error option) option" where
  "Authenticate w s token =
     (if token \<noteq> '''' \<and> uuidParse w token \<noteq> None then Some ([], Some (invalidTokenError token))
      else
        let cmd = newCommand w s [''auth'', token];
            cmd = cmd\<lparr>Env := Env cmd @ [''SNYK_UTM_MEDIUM=Partner'',
                                         ''SNYK_UTM_SOURCE=Docker'',
                                         ''SNYK_UTM_CAMPAIGN=Docker-Desktop-2020'']\<rparr>;
            cmd = cmd\<lparr>Stdout := out s, Stderr := err s\<rparr>
        in map_option (Pair [cmd]) (checkCommandErr (runErr (Run w cmd))))"

definition isAuthenticatedOnSnyk :: "World \<Rightarrow> string \<times> go_error option" where
  "isAuthenticatedOnSnyk w =
     (case homedirDir w of
        Inl e \<Rightarrow> ('''', Some e)
      | Inr home \<Rightarrow>
          (case ReadFile w (Join w [home, ''.config'', ''configstore'', ''snyk.json'']) of
             Inl e \<Rightarrow> if IsNotExist e then ('''', None) else ('''', Some e)
           | Inr buff \<Rightarrow>
               (case Unmarshal w buff of
                  Inl e \<Rightarrow> ('''', Some e)
                | Inr api \<Rightarrow> (api, None))))"

text \<open>The end of \<open>Scan\<close>, shared by its two branches: set the streams and run.\<close>

definition runScan ::
  "World \<Rightarrow> snykProvider \<Rightarrow> Cmd \<Rightarrow> (Cmd list \<times> go_error option) option" where
  "runScan w s cmd =
     (let cmd = cmd\<lparr>Stdout := out s, Stderr := err s\<rparr>
      in map_option (Pair [cmd]) (checkCommandErr (runErr (Run w cmd))))"

definition Scan ::
  "World \<Rightarrow> snykProvider \<Rightarrow> string \<Rightarrow> (Cmd list \<times> go_error option) option" where
  "Scan w s image' =
     (let cmd = newCommand w s (flags s @ [image']);
          (authenticated, e) = isAuthenticatedOnSnyk w
      in
        if authenticated = '''' \<or> e \<noteq> None then
          (case getToken w s of
             Inl e' \<Rightarrow>
               do { m \<leftarrow> Error e';
                    r \<leftarrow> Errorf ''failed to get DockerScanID: %s'' [m];
                    Some ([], Some r) }
           | Inr token \<Rightarrow>
               do { v \<leftarrow> Sprintf ''SNYK_DOCKER_TOKEN=%s'' [token];
                    runScan w s (cmd\<lparr>Env := Env cmd @ [v]\<rparr>) })
        else
          do { v \<leftarrow> Sprintf ''SNYK_TOKEN=%s'' [authenticated];
               runScan w s (cmd\<lparr>Env := Env cmd @ [v]\<rparr>) })"

text \<open>
  \<open>Version\<close>. Both streams go to fresh buffers, so \<open>buff.String()\<close> and
  \<open>buffErr.String()\<close> are what the child wrote. On failure the message built so far is
  used as the format of the next call, twice.
\<close>

definition Version ::
  "World \<Rightarrow> snykProvider \<Rightarrow> (Cmd list \<times> string \<times> go_error option) option" where
  "Version w s =
     (let cmd = newCommand w s [''--version''];
          cmd = cmd\<lparr>Stdout := Buffer 0, Stderr := Buffer 1\<rparr>;
          r = Run w cmd
      in
        (case runErr r of
           Some e \<Rightarrow>
             do { c \<leftarrow> checkCommandErr (Some e);
                  e' \<leftarrow> c;
                  m \<leftarrow> Error e';
                  errMsg \<leftarrow> Sprintf ''failed to get snyk version: %s'' [m];
                  errMsg \<leftarrow> (if stderr r \<noteq> '''' then Sprintf (errMsg @ '',%s'') [stderr r]
                             else Some errMsg);
                  r' \<leftarrow> Errorf errMsg [];
                  Some ([cmd], '''', Some r') }
         | None \<Rightarrow>
             do { v \<leftarrow> Sprintf ''Snyk (%s)'' [TrimSpace (stdout r)];
                  Some ([cmd], v, None) }))"

section \<open>The version gate\<close>

text \<open>
  The \<open>semver\<close> library, as the gate calls it: \<open>NewVersion\<close>, \<open>NewConstraint\<close>,
  \<open>Constraints.Check\<close> and the version's \<open>String()\<close>.
\<close>

record ('v, 'c) Semver =
  NewVersion :: "string \<Rightarrow> go_error + 'v"
  NewConstraint :: "string \<Rightarrow> go_error + 'c"
  Check :: "'c \<Rightarrow> 'v \<Rightarrow> bool"
  String :: "'v \<Rightarrow> string"

text \<open>The argument is the package variable \<open>SnykDesktopVersion\<close>, set when linking.\<close>

definition minimalSnykVersion :: "string \<Rightarrow> string option" where
  "minimalSnykVersion SnykDesktopVersion = Sprintf ''>=%s'' [SnykDesktopVersion]"

definition olderFormat :: string where
  "olderFormat = ''The Snyk version %s installed on your system is older as the one embedded by Docker Desktop (%s), using embedded Snyk version instead.\<newline>''"

definition checkUserSnykBinaryVersion ::
  "World \<Rightarrow> ('v, 'c) Semver \<Rightarrow> string \<Rightarrow> string \<Rightarrow> (Cmd list \<times> bool \<times> go_error option) option" where
  "checkUserSnykBinaryVersion w lib SnykDesktopVersion binary =
     (let cmd = \<lparr>Ctx = None, Args = [binary, ''--version''], Env = [],
                 Stdout = Buffer 0, Stderr = Discard\<rparr>;
          r = Run w cmd
      in
        (case runErr r of
           Some e \<Rightarrow> Some ([cmd], False, Some e)
         | None \<Rightarrow>
             (case NewVersion lib (cleanVersion (stdout r)) of
                Inl e \<Rightarrow> Some ([cmd], False, Some e)
              | Inr ver \<Rightarrow>
                  do { minimal \<leftarrow> minimalSnykVersion SnykDesktopVersion;
                       (case NewConstraint lib minimal of
                          Inl e \<Rightarrow> Some ([cmd], False, Some e)
                        | Inr constraint \<Rightarrow>
                            let matchConstraint = Check lib constraint ver in
                            if \<not> matchConstraint then
                              do { minimal' \<leftarrow> minimalSnykVersion SnykDesktopVersion;
                                   e \<leftarrow> Errorf olderFormat [String lib ver, minimal'];
                                   Some ([cmd], matchConstraint, Some e) }
                            else Some ([cmd], matchConstraint, None)) })))"

text \<open>\<open>strings.Contains\<close>, to state what a message holds.\<close>

fun Contains :: "string \<Rightarrow> string \<Rightarrow> bool" where
  "Contains [] substr = (substr = [])"
| "Contains (c # s) substr = (take (length substr) (c # s) = substr \<or> Contains s substr)"

section \<open>The error classes of the specification\<close>

text \<open>
  The specification's words, not the code's: errors are classified only as
  binary-not-found, invalid-token-format, subprocess-nonzero-exit (message passed
  through) and version-parse-failure. \<open>specClass\<close> gives the class of an error, and
  \<open>None\<close> for an error that is in none of the four.
\<close>

datatype error_class =
  BinaryNotFound | InvalidTokenFormat | SubprocessNonzeroExit | VersionParseFailure

fun specClass :: "go_error \<Rightarrow> error_class option" where
  "specClass (FmtError text) =
     (if text = ''could not find Snyk binary'' then Some BinaryNotFound else None)"
| "specClass (invalidTokenError token) = Some InvalidTokenFormat"
| "specClass (ExitError code text) = (if code \<noteq> 0 then Some SubprocessNonzeroExit else None)"
| "specClass (SemverError text) = Some VersionParseFailure"
| "specClass e = None"

section \<open>Example inputs\<close>

text \<open>
  A provider, a world and a \<open>semver\<close> library to run the definitions on: no scanner
  configuration file, a token service that answers, and a scanner that prints its
  version and exits with status 1. The library compares versions given as
  \<open>major.minor\<close> with both parts one digit.
\<close>

definition exOptions :: Options where
  "exOptions = \<lparr>context = Context 0, path = ''snyk'', flags = [''test'', ''--docker''],
                 out = Writer 1, err = Writer 2\<rparr>"

definition exWorld :: World where
  "exWorld =
     \<lparr>Environ = [''HOME=/home/user''],
      homedirDir = Inr ''/home/user'',
      Join = (\<lambda>elems. case elems of [] \<Rightarrow> [] | e # es \<Rightarrow> foldl (\<lambda>a b. a @ ''/'' @ b) e es),
      ReadFile = (\<lambda>name. Inl (PathError ''open'' name ENOENT)),
      Unmarshal = (\<lambda>buff. if buff = ''{\"api\":\"abc\"}'' then Inr ''abc''
                           else Inl (OtherError ''unexpected end of JSON input'')),
      uuidParse = (\<lambda>t. if t = ''0f8fad5b-d9cb-469f-a165-70867728950e'' then None
                        else Some (OtherError ''invalid UUID length'')),
      getToken = (\<lambda>opts. Inr ''hub-token''),
      Run = (\<lambda>cmd. \<lparr>stdout = ''2.3 (standalone)\<newline>'', stderr = '''',
                     runErr = Some (ExitError 1 ''exit status 1'')\<rparr>)\<rparr>"

definition exDigit :: "char \<Rightarrow> nat option" where
  "exDigit = map_of [(CHR ''0'', 0), (CHR ''1'', 1), (CHR ''2'', 2), (CHR ''3'', 3), (CHR ''4'', 4),
                     (CHR ''5'', 5), (CHR ''6'', 6), (CHR ''7'', 7), (CHR ''8'', 8), (CHR ''9'', 9)]"

definition exSemver :: "(nat \<times> nat, nat \<times> nat) Semver" where
  "exSemver =
     \<lparr>NewVersion = (\<lambda>v. case v of
                       [a, p, b] \<Rightarrow>
                         (case (exDigit a, p = CHR ''.'', exDigit b) of
                            (Some major, True, Some minor) \<Rightarrow> Inr (major, minor)
                          | _ \<Rightarrow> Inl (SemverError ''Invalid Semantic Version''))
                     | _ \<Rightarrow> Inl (SemverError ''Invalid Semantic Version'')),
      NewConstraint = (\<lambda>c. case c of
                       [g, e, a, p, b] \<Rightarrow>
                         (case (g = CHR ''>'' \<and> e = CHR ''='' \<and> p = CHR ''.'', exDigit a, exDigit b) of
                            (True, Some major, Some minor) \<Rightarrow> Inr (major, minor)
                          | _ \<Rightarrow> Inl (SemverError ''improper constraint''))
                     | _ \<Rightarrow> Inl (SemverError ''improper constraint'')),
      Check = (\<lambda>c v. fst c < fst v \<or> (fst c = fst v \<and> snd c \<le> snd v)),
      String = (\<lambda>v. [''0123456789'' ! fst v, CHR ''.'', ''0123456789'' ! snd v])\<rparr>"

definition setPath :: "string \<Rightarrow> SnykProviderOps" where
  "setPath p = (\<lambda>provider. (provider\<lparr>path := p\<rparr>, None))"

definition addFlag :: "string \<Rightarrow> SnykProviderOps" where
  "addFlag f = (\<lambda>provider. (provider\<lparr>flags := flags provider @ [f]\<rparr>, None))"

definition failingOp :: SnykProviderOps where
  "failingOp = (\<lambda>provider. (provider, Some (OtherError ''no such file'')))"

definition exScanCmd :: Cmd where
  "exScanCmd =
     \<lparr>Ctx = Some (Context 0), Args = [''snyk'', ''test'', ''--docker'', ''alpine:3.10.0''],
      Env = [''HOME=/home/user'', ''NO_UPDATE_NOTIFIER=true'',
             ''SNYK_CFG_DISABLESUGGESTIONS=true'', ''SNYK_INTEGRATION_NAME=DOCKER_DESKTOP'',
             ''SNYK_DOCKER_TOKEN=hub-token''],
      Stdout = Writer 1, Stderr = Writer 2\<rparr>"

text \<open>Three more worlds: the configuration file cannot be read, is cut short, holds a token.\<close>

definition exDenied :: World where
  "exDenied =
     exWorld\<lparr>ReadFile := \<lambda>name. Inl (PathError ''open'' ''snyk.json'' (OtherError ''permission denied''))\<rparr>"

definition exBroken :: World where
  "exBroken = exWorld\<lparr>ReadFile := \<lambda>name. Inr ''{''\<rparr>"

definition exLoggedIn :: World where
  "exLoggedIn = exWorld\<lparr>ReadFile := \<lambda>name. Inr ''{\"api\":\"abc\"}''\<rparr>"

text \<open>The token service fails; the scanner exits with status 0.\<close>

definition exNoHub :: World where
  "exNoHub = exWorld\<lparr>getToken := \<lambda>opts. Inl (OtherError ''You need to be logged in to Docker Hub'')\<rparr>"

definition exClean :: World where
  "exClean = exWorld\<lparr>Run := \<lambda>cmd. \<lparr>stdout = ''2.3 (standalone)\<newline>'', stderr = '''', runErr = None\<rparr>\<rparr>"

text \<open>
  What an invocation set of the two token variables: the entries for \<open>SNYK_TOKEN\<close> or
  \<open>SNYK_DOCKER_TOKEN\<close> that the commands it ran carry beyond the ambient environment.
\<close>

definition isTokenVariable :: "string \<Rightarrow> bool" where
  "isTokenVariable v = (take 11 v = ''SNYK_TOKEN='' \<or> take 18 v = ''SNYK_DOCKER_TOKEN='')"

definition tokenVariablesSet :: "World \<Rightarrow> Cmd list \<Rightarrow> string list" where
  "tokenVariablesSet w cmds =
     concat (map (\<lambda>cmd. filter isTokenVariable (drop (length (Environ w)) (Env cmd))) cmds)"

definition exAuthCmd :: Cmd where
  "exAuthCmd =
     \<lparr>Ctx = Some (Context 0), Args = [''snyk'', ''auth'', ''''],
      Env = [''HOME=/home/user'', ''NO_UPDATE_NOTIFIER=true'',
             ''SNYK_CFG_DISABLESUGGESTIONS=true'', ''SNYK_INTEGRATION_NAME=DOCKER_DESKTOP'',
             ''SNYK_UTM_MEDIUM=Partner'', ''SNYK_UTM_SOURCE=Docker'',
             ''SNYK_UTM_CAMPAIGN=Docker-Desktop-2020''],
      Stdout = Writer 1, Stderr = Writer 2\<rparr>"

definition exVersionCmd :: Cmd where
  "exVersionCmd =
     \<lparr>Ctx = Some (Context 0), Args = [''snyk'', ''--version''],
      Env = [''HOME=/home/user'', ''NO_UPDATE_NOTIFIER=true'',
             ''SNYK_CFG_DISABLESUGGESTIONS=true'', ''SNYK_INTEGRATION_NAME=DOCKER_DESKTOP''],
      Stdout = Buffer 0, Stderr = Buffer 1\<rparr>"

text \<open>The scanner fails and writes a line with a percent sign on its standard error.\<close>

definition exPercent :: World where
  "exPercent = exWorld\<lparr>Run := \<lambda>cmd. \<lparr>stdout = '''', stderr = ''error: 100% failed'',
                                      runErr = Some (ExitError 1 ''exit status 1'')\<rparr>\<rparr>"

text \<open>The command of the version gate for the binary \<open>snyk\<close>.\<close>

definition exGateCmd :: Cmd where
  "exGateCmd = \<lparr>Ctx = None, Args = [''snyk'', ''--version''], Env = [],
                 Stdout = Buffer 0, Stderr = Discard\<rparr>"

text \<open>The scanner prints no version.\<close>

definition exNoVersion :: World where
  "exNoVersion = exWorld\<lparr>Run := \<lambda>cmd. \<lparr>stdout = ''snyk: unknown option'', stderr = '''',
                                        runErr = None\<rparr>\<rparr>"

section \<open>Facts about the library models\<close>

lemma Split_nonempty: "Split s sep \<noteq> []"
  by (subst Split.simps) (simp split: list.split)

lemma doPrintf_plain: "CHR ''%'' \<notin> set format \<Longrightarrow> doPrintf format [] = Some format"
  by (induction format) auto

lemma Errorf_not_found:
  "Errorf ''could not find Snyk binary'' [] = Some (FmtError ''could not find Snyk binary'')"
  by (simp add: Errorf_def Sprintf_def)

lemma Sprintf_docker_token:
  "Sprintf ''SNYK_DOCKER_TOKEN=%s'' [t] = Some (''SNYK_DOCKER_TOKEN='' @ t)"
  by (simp add: Sprintf_def isFlag_def notModelled_def)

lemma Sprintf_token: "Sprintf ''SNYK_TOKEN=%s'' [t] = Some (''SNYK_TOKEN='' @ t)"
  by (simp add: Sprintf_def isFlag_def notModelled_def)

lemma Errorf_scan_id:
  "Errorf ''failed to get DockerScanID: %s'' [m] =
     Some (FmtError (''failed to get DockerScanID: '' @ m))"
  by (simp add: Errorf_def Sprintf_def isFlag_def notModelled_def)

section \<open>The classification of subprocess errors\<close>

lemma checkCommandErr_eval:
  "checkCommandErr None = Some None"
  "checkCommandErr (Some e) =
     Some (Some (if e = ErrNotFound \<or> isExecError e \<or> isPathError e
                 then FmtError ''could not find Snyk binary'' else e))"
  by (simp_all add: checkCommandErr_def Errorf_not_found)

text \<open>
  C5, as amended. \<open>checkCommandErr\<close> returns nil exactly when its argument is nil;
  it turns \<open>exec.ErrNotFound\<close>, every \<open>*exec.Error\<close> and every \<open>*os.PathError\<close>
  (whatever it wraps) into the one error whose text is \<open>could not find Snyk binary\<close>;
  it returns every other error as it is, of whatever kind that error is.
\<close>

theorem checkCommandErr_classification:
  "((checkCommandErr e = Some None) = (e = None))
   \<and> checkCommandErr (Some ErrNotFound) = Some (Some (FmtError ''could not find Snyk binary''))
   \<and> checkCommandErr (Some (ExecError t)) = Some (Some (FmtError ''could not find Snyk binary''))
   \<and> checkCommandErr (Some (PathError Op Path u)) =
       Some (Some (FmtError ''could not find Snyk binary''))
   \<and> checkCommandErr (Some x) =
       Some (Some (if x = ErrNotFound \<or> isExecError x \<or> isPathError x
                   then FmtError ''could not find Snyk binary'' else x))
   \<and> Error (FmtError ''could not find Snyk binary'') = Some ''could not find Snyk binary''"
proof -
  have "(checkCommandErr e = Some None) = (e = None)"
    by (cases e) (simp_all add: checkCommandErr_eval)
  then show ?thesis
    by (simp add: checkCommandErr_eval)
qed

text \<open>
  C5, as the claim states it, fails in its last clause: the results do not fall into
  the classes the specification lists. The error of a cancelled context, which
  \<open>cmd.Run()\<close> returns for a command made by \<open>exec.CommandContext\<close>, is returned as
  it is and is in none of the four classes.
\<close>

theorem checkCommandErr_outside_classes:
  "checkCommandErr (Some (OtherError ''context canceled'')) =
     Some (Some (OtherError ''context canceled''))
   \<and> specClass (OtherError ''context canceled'') = None"
  by (simp add: checkCommandErr_eval)

section \<open>Construction from option functions\<close>

lemma applyOps_append:
  "applyOps d (pre @ post) =
     (case applyOps d pre of
        (Some p, r) \<Rightarrow> applyOps p post
      | (None, r) \<Rightarrow> (None, r))"
proof (induction pre arbitrary: d)
  case Nil
  show ?case by simp
next
  case (Cons snykOp pre)
  show ?case
  proof (cases "snykOp d")
    case (Pair d' r)
    then show ?thesis using Cons.IH [of d'] by (cases r) simp_all
  qed
qed

lemma applyOps_cases:
  "applyOps d ops = (Some (foldl (\<lambda>p snykOp. fst (snykOp p)) d ops), None)
   \<or> (\<exists>pre snykOp post p e. ops = pre @ snykOp # post
         \<and> applyOps d pre = (Some p, None) \<and> snd (snykOp p) = Some e
         \<and> applyOps d ops = (None, Some e))"
proof (induction ops arbitrary: d)
  case Nil
  show ?case by simp
next
  case (Cons snykOp ops)
  obtain d' r where op: "snykOp d = (d', r)" by (cases "snykOp d")
  show ?case
  proof (cases r)
    case (Some e)
    have "snykOp # ops = [] @ snykOp # ops \<and> applyOps d [] = (Some d, None)
          \<and> snd (snykOp d) = Some e \<and> applyOps d (snykOp # ops) = (None, Some e)"
      using op Some by simp
    then show ?thesis by blast
  next
    case None
    from Cons.IH [of d'] show ?thesis
    proof
      assume "applyOps d' ops = (Some (foldl (\<lambda>p snykOp. fst (snykOp p)) d' ops), None)"
      then show ?thesis using op None by simp
    next
      assume "\<exists>pre snykOp post p e. ops = pre @ snykOp # post
         \<and> applyOps d' pre = (Some p, None) \<and> snd (snykOp p) = Some e
         \<and> applyOps d' ops = (None, Some e)"
      then obtain pre op' post p e where h: "ops = pre @ op' # post"
        "applyOps d' pre = (Some p, None)" "snd (op' p) = Some e"
        "applyOps d' ops = (None, Some e)"
        by blast
      have "snykOp # ops = (snykOp # pre) @ op' # post
          \<and> applyOps d (snykOp # pre) = (Some p, None)
          \<and> snd (op' p) = Some e \<and> applyOps d (snykOp # ops) = (None, Some e)"
        using h op None by simp
      then show ?thesis by blast
    qed
  qed
qed

text \<open>
  C8. \<open>NewSnykProvider\<close> starts from the default options and applies the option
  functions in list order: with none it returns the default; an option function that
  succeeds on the provider built so far extends the construction; one that fails ends
  it with its error and no provider, whatever follows it in the list. So the result is
  either the provider left by all the functions, applied in order, with a nil error, or
  the error of the first function that failed.
\<close>

theorem NewSnykProvider_in_order:
  "NewSnykProvider d [] = (Some d, None)
   \<and> (NewSnykProvider d pre = (Some p, None) \<and> snykOp p = (p', None)
        \<longrightarrow> NewSnykProvider d (pre @ [snykOp]) = (Some p', None))
   \<and> (NewSnykProvider d pre = (Some p, None) \<and> snykOp p = (p', Some e)
        \<longrightarrow> NewSnykProvider d (pre @ snykOp # post) = (None, Some e))
   \<and> (NewSnykProvider d ops = (Some (foldl (\<lambda>q f. fst (f q)) d ops), None)
        \<or> (\<exists>before f after q e'. ops = before @ f # after
              \<and> NewSnykProvider d before = (Some q, None) \<and> snd (f q) = Some e'
              \<and> NewSnykProvider d ops = (None, Some e')))"
proof -
  have "NewSnykProvider d ops = (Some (foldl (\<lambda>q f. fst (f q)) d ops), None)
        \<or> (\<exists>before f after q e'. ops = before @ f # after
              \<and> NewSnykProvider d before = (Some q, None) \<and> snd (f q) = Some e'
              \<and> NewSnykProvider d ops = (None, Some e'))"
    unfolding NewSnykProvider_def by (rule applyOps_cases)
  then show ?thesis
    by (simp add: NewSnykProvider_def applyOps_append)
qed

theorem NewSnykProvider_in_order_witness:
  "NewSnykProvider exOptions [setPath ''/usr/bin/snyk''] =
     (Some (exOptions\<lparr>path := ''/usr/bin/snyk''\<rparr>), None)
   \<and> addFlag ''--json'' (exOptions\<lparr>path := ''/usr/bin/snyk''\<rparr>) =
       (exOptions\<lparr>path := ''/usr/bin/snyk'', flags := [''test'', ''--docker'', ''--json'']\<rparr>, None)
   \<and> NewSnykProvider exOptions ([setPath ''/usr/bin/snyk''] @ [addFlag ''--json'']) =
       (Some (exOptions\<lparr>path := ''/usr/bin/snyk'', flags := [''test'', ''--docker'', ''--json'']\<rparr>),
        None)
   \<and> failingOp (exOptions\<lparr>path := ''/usr/bin/snyk''\<rparr>) =
       (exOptions\<lparr>path := ''/usr/bin/snyk''\<rparr>, Some (OtherError ''no such file''))
   \<and> NewSnykProvider exOptions ([setPath ''/usr/bin/snyk''] @ failingOp # [addFlag ''--json'']) =
       (None, Some (OtherError ''no such file''))"
proof -
  have a: "NewSnykProvider exOptions [setPath ''/usr/bin/snyk''] =
             (Some (exOptions\<lparr>path := ''/usr/bin/snyk''\<rparr>), None)"
    by (simp add: NewSnykProvider_def setPath_def)
  have b: "addFlag ''--json'' (exOptions\<lparr>path := ''/usr/bin/snyk''\<rparr>) =
             (exOptions\<lparr>path := ''/usr/bin/snyk'', flags := [''test'', ''--docker'', ''--json'']\<rparr>,
              None)"
    by (simp add: addFlag_def exOptions_def)
  have c: "failingOp (exOptions\<lparr>path := ''/usr/bin/snyk''\<rparr>) =
             (exOptions\<lparr>path := ''/usr/bin/snyk''\<rparr>, Some (OtherError ''no such file''))"
    by (simp add: failingOp_def)
  show ?thesis
    using a b c
      NewSnykProvider_in_order [of exOptions "[setPath ''/usr/bin/snyk'']"
        "exOptions\<lparr>path := ''/usr/bin/snyk''\<rparr>" "addFlag ''--json''"
        "exOptions\<lparr>path := ''/usr/bin/snyk'', flags := [''test'', ''--docker'', ''--json'']\<rparr>"]
      NewSnykProvider_in_order [of exOptions "[setPath ''/usr/bin/snyk'']"
        "exOptions\<lparr>path := ''/usr/bin/snyk''\<rparr>" failingOp
        "exOptions\<lparr>path := ''/usr/bin/snyk''\<rparr>" "OtherError ''no such file''"
        "[addFlag ''--json'']"]
    by simp
qed

section \<open>The scanner's own configuration file\<close>

text \<open>
  C9. With a home directory, \<open>isAuthenticatedOnSnyk\<close> reads
  \<open>.config/configstore/snyk.json\<close> under it: a file that does not exist
  (\<open>os.IsNotExist\<close> of the read error) gives the empty token and a nil error; any other
  read error, and a content that does not unmarshal, give the empty token and that
  error; a content that unmarshals gives its \<open>api\<close> field and a nil error.
\<close>

theorem isAuthenticatedOnSnyk_cases:
  assumes "homedirDir w = Inr home"
  shows "(ReadFile w (Join w [home, ''.config'', ''configstore'', ''snyk.json'']) = Inl e
            \<and> IsNotExist e \<longrightarrow> isAuthenticatedOnSnyk w = ('''', None))
       \<and> (ReadFile w (Join w [home, ''.config'', ''configstore'', ''snyk.json'']) = Inl e
            \<and> \<not> IsNotExist e \<longrightarrow> isAuthenticatedOnSnyk w = ('''', Some e))
       \<and> (ReadFile w (Join w [home, ''.config'', ''configstore'', ''snyk.json'']) = Inr buff
            \<and> Unmarshal w buff = Inl e \<longrightarrow> isAuthenticatedOnSnyk w = ('''', Some e))
       \<and> (ReadFile w (Join w [home, ''.config'', ''configstore'', ''snyk.json'']) = Inr buff
            \<and> Unmarshal w buff = Inr api \<longrightarrow> isAuthenticatedOnSnyk w = (api, None))"
  using assms by (simp add: isAuthenticatedOnSnyk_def)

theorem isAuthenticatedOnSnyk_cases_witness:
  "homedirDir exWorld = Inr ''/home/user''
   \<and> ReadFile exWorld (Join exWorld [''/home/user'', ''.config'', ''configstore'', ''snyk.json'']) =
       Inl (PathError ''open'' ''/home/user/.config/configstore/snyk.json'' ENOENT)
   \<and> IsNotExist (PathError ''open'' ''/home/user/.config/configstore/snyk.json'' ENOENT)
   \<and> isAuthenticatedOnSnyk exWorld = ('''', None)
   \<and> \<not> IsNotExist (PathError ''open'' ''snyk.json'' (OtherError ''permission denied''))
   \<and> isAuthenticatedOnSnyk exDenied =
       ('''', Some (PathError ''open'' ''snyk.json'' (OtherError ''permission denied'')))
   \<and> Unmarshal exBroken ''{'' = Inl (OtherError ''unexpected end of JSON input'')
   \<and> isAuthenticatedOnSnyk exBroken = ('''', Some (OtherError ''unexpected end of JSON input''))
   \<and> Unmarshal exLoggedIn ''{\"api\":\"abc\"}'' = Inr ''abc''
   \<and> isAuthenticatedOnSnyk exLoggedIn = (''abc'', None)"
proof -
  have home0: "homedirDir exWorld = Inr ''/home/user''"
    by (simp add: exWorld_def)
  have home1: "homedirDir exDenied = Inr ''/home/user''"
    by (simp add: exDenied_def exWorld_def)
  have home2: "homedirDir exBroken = Inr ''/home/user''"
    by (simp add: exBroken_def exWorld_def)
  have home3: "homedirDir exLoggedIn = Inr ''/home/user''"
    by (simp add: exLoggedIn_def exWorld_def)
  have read0: "ReadFile exWorld (Join exWorld [''/home/user'', ''.config'', ''configstore'', ''snyk.json''])
                 = Inl (PathError ''open'' ''/home/user/.config/configstore/snyk.json'' ENOENT)"
    by (simp add: exWorld_def)
  have read1: "ReadFile exDenied (Join exDenied [''/home/user'', ''.config'', ''configstore'', ''snyk.json''])
                 = Inl (PathError ''open'' ''snyk.json'' (OtherError ''permission denied''))"
    by (simp add: exDenied_def)
  have read2: "ReadFile exBroken (Join exBroken [''/home/user'', ''.config'', ''configstore'', ''snyk.json''])
                 = Inr ''{''"
    by (simp add: exBroken_def)
  have read3: "ReadFile exLoggedIn (Join exLoggedIn [''/home/user'', ''.config'', ''configstore'', ''snyk.json''])
                 = Inr ''{\"api\":\"abc\"}''"
    by (simp add: exLoggedIn_def)
  have un2: "Unmarshal exBroken ''{'' = Inl (OtherError ''unexpected end of JSON input'')"
    by (simp add: exBroken_def exWorld_def)
  have un3: "Unmarshal exLoggedIn ''{\"api\":\"abc\"}'' = Inr ''abc''"
    by (simp add: exLoggedIn_def exWorld_def)
  have c0: "isAuthenticatedOnSnyk exWorld = ('''', None)"
    using isAuthenticatedOnSnyk_cases [OF home0,
        of "PathError ''open'' ''/home/user/.config/configstore/snyk.json'' ENOENT"] read0
    by simp
  have c1: "isAuthenticatedOnSnyk exDenied =
              ('''', Some (PathError ''open'' ''snyk.json'' (OtherError ''permission denied'')))"
    using isAuthenticatedOnSnyk_cases [OF home1,
        of "PathError ''open'' ''snyk.json'' (OtherError ''permission denied'')"] read1
    by simp
  have c2: "isAuthenticatedOnSnyk exBroken = ('''', Some (OtherError ''unexpected end of JSON input''))"
    using isAuthenticatedOnSnyk_cases [OF home2,
        where e = "OtherError ''unexpected end of JSON input''" and buff = "''{''"] read2 un2
    by simp
  have c3: "isAuthenticatedOnSnyk exLoggedIn = (''abc'', None)"
    using isAuthenticatedOnSnyk_cases [OF home3,
        where buff = "''{\"api\":\"abc\"}''" and api = "''abc''"] read3 un3
    by simp
  from home0 read0 un2 un3 c0 c1 c2 c3 show ?thesis
    by simp
qed

section \<open>Scan\<close>

lemma runScan_eval:
  "runScan w s cmd =
     Some ([cmd\<lparr>Stdout := out s, Stderr := err s\<rparr>],
           (case runErr (Run w (cmd\<lparr>Stdout := out s, Stderr := err s\<rparr>)) of
              None \<Rightarrow> None
            | Some e \<Rightarrow> Some (if e = ErrNotFound \<or> isExecError e \<or> isPathError e
                               then FmtError ''could not find Snyk binary'' else e)))"
  by (cases "runErr (Run w (cmd\<lparr>Stdout := out s, Stderr := err s\<rparr>))")
     (simp_all add: runScan_def Let_def checkCommandErr_eval)

lemma Scan_eval:
  "Scan w s img =
     (if fst (isAuthenticatedOnSnyk w) = '''' \<or> snd (isAuthenticatedOnSnyk w) \<noteq> None then
        (case getToken w s of
           Inl e \<Rightarrow>
             map_option (\<lambda>m. ([], Some (FmtError (''failed to get DockerScanID: '' @ m))))
               (Error e)
         | Inr token \<Rightarrow>
             runScan w s ((newCommand w s (flags s @ [img]))
               \<lparr>Env := Env (newCommand w s (flags s @ [img])) @ [''SNYK_DOCKER_TOKEN='' @ token]\<rparr>))
      else runScan w s ((newCommand w s (flags s @ [img]))
               \<lparr>Env := Env (newCommand w s (flags s @ [img]))
                        @ [''SNYK_TOKEN='' @ fst (isAuthenticatedOnSnyk w)]\<rparr>))"
proof (cases "isAuthenticatedOnSnyk w")
  case (Pair authenticated e)
  show ?thesis
  proof (cases "getToken w s")
    case (Inl e')
    then show ?thesis
      by (cases "Error e'")
         (simp_all add: Scan_def Pair Let_def Sprintf_docker_token Sprintf_token Errorf_scan_id)
  next
    case (Inr token)
    then show ?thesis
      by (simp add: Scan_def Pair Let_def Sprintf_docker_token Sprintf_token Errorf_scan_id)
  qed
qed

text \<open>The command \<open>Scan\<close> runs with the token variable \<open>v\<close>.\<close>

lemma scan_command:
  "(newCommand w s (flags s @ [img]))
     \<lparr>Env := Env (newCommand w s (flags s @ [img])) @ [v], Stdout := out s, Stderr := err s\<rparr> =
   \<lparr>Ctx = Some (context s), Args = path s # flags s @ [img],
    Env = Environ w @ [''NO_UPDATE_NOTIFIER=true'', ''SNYK_CFG_DISABLESUGGESTIONS=true'',
                       ''SNYK_INTEGRATION_NAME=DOCKER_DESKTOP'', v],
    Stdout = out s, Stderr = err s\<rparr>"
  by (simp add: newCommand_def)


lemma exWorld_not_authenticated: "isAuthenticatedOnSnyk exWorld = ('''', None)"
  by (simp add: isAuthenticatedOnSnyk_def exWorld_def)

lemma exLoggedIn_authenticated: "isAuthenticatedOnSnyk exLoggedIn = (''abc'', None)"
  by (simp add: isAuthenticatedOnSnyk_def exLoggedIn_def exWorld_def)

lemma Scan_exWorld:
  "Scan exWorld exOptions ''alpine:3.10.0'' =
     Some ([exScanCmd], Some (ExitError 1 ''exit status 1''))"
  unfolding Scan_eval exWorld_not_authenticated
  by (simp add: runScan_eval newCommand_def exWorld_def exOptions_def exScanCmd_def)


lemma Scan_exNoHub:
  "Scan exNoHub exOptions ''alpine:3.10.0'' =
     Some ([], Some (FmtError ''failed to get DockerScanID: You need to be logged in to Docker Hub''))"
  unfolding Scan_eval
  by (simp add: isAuthenticatedOnSnyk_def exNoHub_def exWorld_def)

lemma Scan_exLoggedIn:
  "Scan exLoggedIn exOptions ''alpine:3.10.0'' =
     Some ([exScanCmd\<lparr>Env := [''HOME=/home/user'', ''NO_UPDATE_NOTIFIER=true'',
                                ''SNYK_CFG_DISABLESUGGESTIONS=true'',
                                ''SNYK_INTEGRATION_NAME=DOCKER_DESKTOP'', ''SNYK_TOKEN=abc'']\<rparr>],
           Some (ExitError 1 ''exit status 1''))"
  unfolding Scan_eval exLoggedIn_authenticated
  by (simp add: runScan_eval newCommand_def exLoggedIn_def exWorld_def exOptions_def
      exScanCmd_def)



text \<open>
  C2, as the claim states it, fails in its last sentence: an invocation whose token
  fetch fails runs no subprocess, so it sets neither variable.
\<close>

theorem Scan_fetch_failure_sets_neither:
  "fst (isAuthenticatedOnSnyk exNoHub) = ''''
   \<and> getToken exNoHub exOptions = Inl (OtherError ''You need to be logged in to Docker Hub'')
   \<and> Scan exNoHub exOptions ''alpine:3.10.0'' =
       Some ([], Some (FmtError ''failed to get DockerScanID: You need to be logged in to Docker Hub''))
   \<and> tokenVariablesSet exNoHub [] = []"
proof -
  have "fst (isAuthenticatedOnSnyk exNoHub) = ''''"
    by (simp add: isAuthenticatedOnSnyk_def exNoHub_def exWorld_def)
  moreover have "getToken exNoHub exOptions = Inl (OtherError ''You need to be logged in to Docker Hub'')"
    by (simp add: exNoHub_def)
  ultimately show ?thesis
    using Scan_exNoHub by (simp add: tokenVariablesSet_def)
qed

text \<open>
  C2, as amended. When the scanner's configuration yields an empty token or an error,
  \<open>Scan\<close> asks \<open>getToken\<close>: with a token it runs the scanner once, the environment
  being the ambient one, the three provider variables and \<open>SNYK_DOCKER_TOKEN\<close> with
  that token; with an error it runs nothing and returns the error
  \<open>failed to get DockerScanID:\<close> followed by the error's text. Otherwise it runs the
  scanner once with \<open>SNYK_TOKEN\<close> and the discovered token in that place. So every
  invocation that runs the scanner sets exactly one of the two variables, and an
  invocation whose fetch fails sets none.
\<close>

theorem Scan_token_variable:
  "((fst (isAuthenticatedOnSnyk w) = '''' \<or> snd (isAuthenticatedOnSnyk w) \<noteq> None)
      \<and> getToken w s = Inr token
      \<longrightarrow> (\<exists>cmd r. Scan w s img = Some ([cmd], r)
            \<and> Env cmd = Environ w @ [''NO_UPDATE_NOTIFIER=true'',
                                      ''SNYK_CFG_DISABLESUGGESTIONS=true'',
                                      ''SNYK_INTEGRATION_NAME=DOCKER_DESKTOP'',
                                      ''SNYK_DOCKER_TOKEN='' @ token]
            \<and> length (tokenVariablesSet w [cmd]) = 1))
   \<and> ((fst (isAuthenticatedOnSnyk w) = '''' \<or> snd (isAuthenticatedOnSnyk w) \<noteq> None)
      \<and> getToken w s = Inl e \<and> Error e = Some m
      \<longrightarrow> Scan w s img = Some ([], Some (FmtError (''failed to get DockerScanID: '' @ m))))
   \<and> (\<not> (fst (isAuthenticatedOnSnyk w) = '''' \<or> snd (isAuthenticatedOnSnyk w) \<noteq> None)
      \<longrightarrow> (\<exists>cmd r. Scan w s img = Some ([cmd], r)
            \<and> Env cmd = Environ w @ [''NO_UPDATE_NOTIFIER=true'',
                                      ''SNYK_CFG_DISABLESUGGESTIONS=true'',
                                      ''SNYK_INTEGRATION_NAME=DOCKER_DESKTOP'',
                                      ''SNYK_TOKEN='' @ fst (isAuthenticatedOnSnyk w)]
            \<and> length (tokenVariablesSet w [cmd]) = 1))"
  by (simp add: Scan_eval runScan_eval scan_command tokenVariablesSet_def isTokenVariable_def)

theorem Scan_token_variable_witness:
  "fst (isAuthenticatedOnSnyk exWorld) = '''' \<and> getToken exWorld exOptions = Inr ''hub-token''
   \<and> Scan exWorld exOptions ''alpine:3.10.0'' =
       Some ([exScanCmd], Some (ExitError 1 ''exit status 1''))
   \<and> Env exScanCmd = Environ exWorld @ [''NO_UPDATE_NOTIFIER=true'',
                                          ''SNYK_CFG_DISABLESUGGESTIONS=true'',
                                          ''SNYK_INTEGRATION_NAME=DOCKER_DESKTOP'',
                                          ''SNYK_DOCKER_TOKEN=hub-token'']
   \<and> fst (isAuthenticatedOnSnyk exNoHub) = ''''
   \<and> getToken exNoHub exOptions = Inl (OtherError ''You need to be logged in to Docker Hub'')
   \<and> Error (OtherError ''You need to be logged in to Docker Hub'') =
       Some ''You need to be logged in to Docker Hub''
   \<and> Scan exNoHub exOptions ''alpine:3.10.0'' =
       Some ([], Some (FmtError ''failed to get DockerScanID: You need to be logged in to Docker Hub''))
   \<and> isAuthenticatedOnSnyk exLoggedIn = (''abc'', None)
   \<and> (\<exists>cmd r. Scan exLoggedIn exOptions ''alpine:3.10.0'' = Some ([cmd], r)
         \<and> Env cmd = Environ exLoggedIn @ [''NO_UPDATE_NOTIFIER=true'',
                                            ''SNYK_CFG_DISABLESUGGESTIONS=true'',
                                            ''SNYK_INTEGRATION_NAME=DOCKER_DESKTOP'',
                                            ''SNYK_TOKEN=abc''])"
proof -
  have a0: "fst (isAuthenticatedOnSnyk exWorld) = ''''"
    by (simp add: exWorld_not_authenticated)
  have g0: "getToken exWorld exOptions = Inr ''hub-token''"
    by (simp add: exWorld_def)
  have e0: "Env exScanCmd = Environ exWorld @ [''NO_UPDATE_NOTIFIER=true'',
                                          ''SNYK_CFG_DISABLESUGGESTIONS=true'',
                                          ''SNYK_INTEGRATION_NAME=DOCKER_DESKTOP'',
                                          ''SNYK_DOCKER_TOKEN=hub-token'']"
    by (simp add: exScanCmd_def exWorld_def)
  have a1: "fst (isAuthenticatedOnSnyk exNoHub) = ''''"
    by (simp add: isAuthenticatedOnSnyk_def exNoHub_def exWorld_def)
  have g1: "getToken exNoHub exOptions = Inl (OtherError ''You need to be logged in to Docker Hub'')"
    by (simp add: exNoHub_def)
  have f1: "Scan exNoHub exOptions ''alpine:3.10.0'' =
       Some ([], Some (FmtError ''failed to get DockerScanID: You need to be logged in to Docker Hub''))"
    using Scan_token_variable [where w = exNoHub and s = exOptions
        and e = "OtherError ''You need to be logged in to Docker Hub''"
        and m = "''You need to be logged in to Docker Hub''" and img = "''alpine:3.10.0''"] a1 g1
    by simp
  have l2: "\<exists>cmd r. Scan exLoggedIn exOptions ''alpine:3.10.0'' = Some ([cmd], r)
         \<and> Env cmd = Environ exLoggedIn @ [''NO_UPDATE_NOTIFIER=true'',
                                            ''SNYK_CFG_DISABLESUGGESTIONS=true'',
                                            ''SNYK_INTEGRATION_NAME=DOCKER_DESKTOP'',
                                            ''SNYK_TOKEN=abc'']"
    using Scan_token_variable [where w = exLoggedIn and s = exOptions
        and img = "''alpine:3.10.0''"]
      exLoggedIn_authenticated
    by auto
  from a0 g0 e0 a1 g1 f1 l2 Scan_exWorld exLoggedIn_authenticated show ?thesis
    by simp
qed

section \<open>Authenticate\<close>

lemma Authenticate_eval:
  "Authenticate w s token =
     (if token \<noteq> '''' \<and> uuidParse w token \<noteq> None
      then Some ([], Some (invalidTokenError token))
      else Some ([\<lparr>Ctx = Some (context s), Args = [path s, ''auth'', token],
                    Env = Environ w @ [''NO_UPDATE_NOTIFIER=true'',
                                       ''SNYK_CFG_DISABLESUGGESTIONS=true'',
                                       ''SNYK_INTEGRATION_NAME=DOCKER_DESKTOP'',
                                       ''SNYK_UTM_MEDIUM=Partner'',
                                       ''SNYK_UTM_SOURCE=Docker'',
                                       ''SNYK_UTM_CAMPAIGN=Docker-Desktop-2020''],
                    Stdout = out s, Stderr = err s\<rparr>],
                 (case runErr (Run w \<lparr>Ctx = Some (context s), Args = [path s, ''auth'', token],
                    Env = Environ w @ [''NO_UPDATE_NOTIFIER=true'',
                                       ''SNYK_CFG_DISABLESUGGESTIONS=true'',
                                       ''SNYK_INTEGRATION_NAME=DOCKER_DESKTOP'',
                                       ''SNYK_UTM_MEDIUM=Partner'',
                                       ''SNYK_UTM_SOURCE=Docker'',
                                       ''SNYK_UTM_CAMPAIGN=Docker-Desktop-2020''],
                    Stdout = out s, Stderr = err s\<rparr>) of
                    None \<Rightarrow> None
                  | Some e \<Rightarrow> Some (if e = ErrNotFound \<or> isExecError e \<or> isPathError e
                                     then FmtError ''could not find Snyk binary'' else e))))"
  by (simp add: Authenticate_def Let_def newCommand_def checkCommandErr_eval
      split: option.split)

lemma Authenticate_exWorld:
  "Authenticate exWorld exOptions '''' = Some ([exAuthCmd], Some (ExitError 1 ''exit status 1''))"
  by (simp add: Authenticate_eval exWorld_def exOptions_def exAuthCmd_def)

text \<open>
  C4. \<open>Authenticate\<close> rejects a token, returning the invalid-token error without
  running anything, if and only if the token is non-empty and \<open>uuid.Parse\<close> fails on
  it. As the subprocess does not return an error of the provider's invalid-token type,
  an invalid-token error is returned in that case only. With the empty token nothing is
  validated and the scanner's \<open>auth\<close> subcommand is run, its error going through
  \<open>checkCommandErr\<close>.
\<close>

theorem Authenticate_invalid_token:
  "((Authenticate w s token = Some ([], Some (invalidTokenError token)))
      = (token \<noteq> '''' \<and> uuidParse w token \<noteq> None))
   \<and> ((\<forall>cmd t. runErr (Run w cmd) \<noteq> Some (invalidTokenError t))
        \<longrightarrow> ((\<exists>cmds t. Authenticate w s token = Some (cmds, Some (invalidTokenError t)))
             = (token \<noteq> '''' \<and> uuidParse w token \<noteq> None)))
   \<and> (\<exists>cmd r. Authenticate w s '''' = Some ([cmd], r)
          \<and> Args cmd = [path s, ''auth'', '''']
          \<and> checkCommandErr (runErr (Run w cmd)) = Some r)"
proof -
  have a: "(Authenticate w s token = Some ([], Some (invalidTokenError token)))
             = (token \<noteq> '''' \<and> uuidParse w token \<noteq> None)"
    by (simp add: Authenticate_eval)
  have b: "(\<exists>cmds t. Authenticate w s token = Some (cmds, Some (invalidTokenError t)))
             = (token \<noteq> '''' \<and> uuidParse w token \<noteq> None)"
    if h: "\<forall>cmd t. runErr (Run w cmd) \<noteq> Some (invalidTokenError t)"
  proof (cases "token \<noteq> '''' \<and> uuidParse w token \<noteq> None")
    case True
    then show ?thesis by (simp add: Authenticate_eval)
  next
    case False
    let ?cmd = "\<lparr>Ctx = Some (context s), Args = [path s, ''auth'', token],
                 Env = Environ w @ [''NO_UPDATE_NOTIFIER=true'',
                                    ''SNYK_CFG_DISABLESUGGESTIONS=true'',
                                    ''SNYK_INTEGRATION_NAME=DOCKER_DESKTOP'',
                                    ''SNYK_UTM_MEDIUM=Partner'',
                                    ''SNYK_UTM_SOURCE=Docker'',
                                    ''SNYK_UTM_CAMPAIGN=Docker-Desktop-2020''],
                 Stdout = out s, Stderr = err s\<rparr>"
    from h have "runErr (Run w ?cmd) \<noteq> Some (invalidTokenError t)" for t
      by blast
    with False show ?thesis
      by (auto simp add: Authenticate_eval split: option.splits if_splits)
  qed
  have c: "\<exists>cmd r. Authenticate w s '''' = Some ([cmd], r)
          \<and> Args cmd = [path s, ''auth'', '''']
          \<and> checkCommandErr (runErr (Run w cmd)) = Some r"
    by (simp add: Authenticate_eval checkCommandErr_eval split: option.split)
  from a b c show ?thesis by blast
qed

theorem Authenticate_invalid_token_witness:
  "(\<forall>cmd t. runErr (Run exWorld cmd) \<noteq> Some (invalidTokenError t))
   \<and> uuidParse exWorld ''not-a-uuid'' = Some (OtherError ''invalid UUID length'')
   \<and> Authenticate exWorld exOptions ''not-a-uuid'' = Some ([], Some (invalidTokenError ''not-a-uuid''))
   \<and> uuidParse exWorld ''0f8fad5b-d9cb-469f-a165-70867728950e'' = None
   \<and> \<not> (\<exists>cmds t. Authenticate exWorld exOptions ''0f8fad5b-d9cb-469f-a165-70867728950e''
                    = Some (cmds, Some (invalidTokenError t)))
   \<and> Authenticate exWorld exOptions '''' = Some ([exAuthCmd], Some (ExitError 1 ''exit status 1''))"
proof -
  have h: "\<forall>cmd t. runErr (Run exWorld cmd) \<noteq> Some (invalidTokenError t)"
    by (simp add: exWorld_def)
  have u1: "uuidParse exWorld ''not-a-uuid'' = Some (OtherError ''invalid UUID length'')"
    by (simp add: exWorld_def)
  have u2: "uuidParse exWorld ''0f8fad5b-d9cb-469f-a165-70867728950e'' = None"
    by (simp add: exWorld_def)
  have r1: "Authenticate exWorld exOptions ''not-a-uuid'' =
              Some ([], Some (invalidTokenError ''not-a-uuid''))"
    using Authenticate_invalid_token [of exWorld exOptions "''not-a-uuid''"] u1 by simp
  have r2: "\<not> (\<exists>cmds t. Authenticate exWorld exOptions ''0f8fad5b-d9cb-469f-a165-70867728950e''
                    = Some (cmds, Some (invalidTokenError t)))"
    using Authenticate_invalid_token [of exWorld exOptions "''0f8fad5b-d9cb-469f-a165-70867728950e''"]
      h u2 by simp
  from h u1 u2 r1 r2 Authenticate_exWorld show ?thesis by simp
qed

section \<open>Version\<close>

lemma Sprintf_version: "Sprintf ''Snyk (%s)'' [v] = Some (''Snyk ('' @ v @ '')'')"
  by (simp add: Sprintf_def isFlag_def notModelled_def)

lemma Sprintf_version_failure:
  "Sprintf ''failed to get snyk version: %s'' [m] = Some (''failed to get snyk version: '' @ m)"
  by (simp add: Sprintf_def isFlag_def notModelled_def)

lemma version_command:
  "(newCommand w s [''--version''])\<lparr>Stdout := Buffer 0, Stderr := Buffer 1\<rparr> =
     \<lparr>Ctx = Some (context s), Args = [path s, ''--version''],
      Env = Environ w @ [''NO_UPDATE_NOTIFIER=true'', ''SNYK_CFG_DISABLESUGGESTIONS=true'',
                         ''SNYK_INTEGRATION_NAME=DOCKER_DESKTOP''],
      Stdout = Buffer 0, Stderr = Buffer 1\<rparr>"
  by (simp add: newCommand_def)


lemma Version_success:
  assumes "runErr (Run w \<lparr>Ctx = Some (context s), Args = [path s, ''--version''],
                   Env = Environ w @ [''NO_UPDATE_NOTIFIER=true'',
                                      ''SNYK_CFG_DISABLESUGGESTIONS=true'',
                                      ''SNYK_INTEGRATION_NAME=DOCKER_DESKTOP''],
                   Stdout = Buffer 0, Stderr = Buffer 1\<rparr>) = None"
  shows "Version w s =
     Some ([\<lparr>Ctx = Some (context s), Args = [path s, ''--version''],
              Env = Environ w @ [''NO_UPDATE_NOTIFIER=true'',
                                 ''SNYK_CFG_DISABLESUGGESTIONS=true'',
                                 ''SNYK_INTEGRATION_NAME=DOCKER_DESKTOP''],
              Stdout = Buffer 0, Stderr = Buffer 1\<rparr>],
           ''Snyk ('' @ TrimSpace (stdout (Run w \<lparr>Ctx = Some (context s),
              Args = [path s, ''--version''],
              Env = Environ w @ [''NO_UPDATE_NOTIFIER=true'',
                                 ''SNYK_CFG_DISABLESUGGESTIONS=true'',
                                 ''SNYK_INTEGRATION_NAME=DOCKER_DESKTOP''],
              Stdout = Buffer 0, Stderr = Buffer 1\<rparr>)) @ '')'',
           None)"
  using assms unfolding Version_def Let_def version_command
  by (simp add: Sprintf_version)


section \<open>The environment of the subprocesses\<close>



section \<open>The message of a failed Version\<close>

lemma doPrintf_then_s:
  "CHR ''%'' \<notin> set format \<Longrightarrow> doPrintf (format @ '',%s'') [x] = Some (format @ '','' @ x)"
  by (induction format) (auto simp add: isFlag_def notModelled_def)

text \<open>
  Without a percent sign in the error's text and in what the scanner wrote on its
  standard error, the message is the prefix, the error's text and, when the standard
  error text is not empty, a comma and that text.
\<close>

lemma Version_failure_plain:
  assumes "cmd = \<lparr>Ctx = Some (context s), Args = [path s, ''--version''],
                   Env = Environ w @ [''NO_UPDATE_NOTIFIER=true'',
                                      ''SNYK_CFG_DISABLESUGGESTIONS=true'',
                                      ''SNYK_INTEGRATION_NAME=DOCKER_DESKTOP''],
                   Stdout = Buffer 0, Stderr = Buffer 1\<rparr>"
    and "runErr (Run w cmd) = Some e"
    and "checkCommandErr (Some e) = Some (Some e')"
    and "Error e' = Some m"
    and "CHR ''%'' \<notin> set m"
    and "CHR ''%'' \<notin> set (stderr (Run w cmd))"
  shows "Version w s =
     Some ([cmd], '''',
           Some (FmtError (''failed to get snyk version: '' @ m @
                   (if stderr (Run w cmd) = '''' then '''' else '','' @ stderr (Run w cmd)))))"
proof -
  let ?msg = "''failed to get snyk version: '' @ m"
  have plain: "CHR ''%'' \<notin> set ?msg"
    using assms(5) by simp
  have one: "Sprintf (?msg @ '',%s'') [stderr (Run w cmd)] = Some (?msg @ '','' @ stderr (Run w cmd))"
    unfolding Sprintf_def using plain by (rule doPrintf_then_s)
  from plain have "doPrintf ?msg [] = Some ?msg"
    by (rule doPrintf_plain)
  then have two: "Errorf ?msg [] = Some (FmtError ?msg)"
    by (simp add: Errorf_def Sprintf_def)
  have "CHR ''%'' \<notin> set (?msg @ '','' @ stderr (Run w cmd))"
    using assms(5,6) by simp
  then have "doPrintf (?msg @ '','' @ stderr (Run w cmd)) [] =
               Some (?msg @ '','' @ stderr (Run w cmd))"
    by (rule doPrintf_plain)
  then have three: "Errorf (?msg @ '','' @ stderr (Run w cmd)) [] =
                      Some (FmtError (?msg @ '','' @ stderr (Run w cmd)))"
    by (simp add: Errorf_def Sprintf_def)
  show ?thesis
  proof (cases "stderr (Run w cmd) = ''''")
    case True
    with assms(2-4) two show ?thesis
      unfolding Version_def Let_def version_command assms(1) [symmetric]
      by (simp add: Sprintf_version_failure)
  next
    case False
    with assms(2-4) one three show ?thesis
      unfolding Version_def Let_def version_command assms(1) [symmetric]
      by (simp add: Sprintf_version_failure)
  qed
qed

text \<open>
  C6. The claim holds of a successful run (\<open>Version_success\<close>) and of a failed run whose
  texts hold no percent sign (\<open>Version_failure_plain\<close>). It fails where the standard
  error text holds one: the message is used as a format, so the scanner's line
  \<open>error: 100% failed\<close> comes out as \<open>error: 100%!f(MISSING)ailed\<close>, and the message
  does not contain the standard error text.
\<close>

theorem Version_percent_in_stderr:
  "runErr (Run exPercent exVersionCmd) = Some (ExitError 1 ''exit status 1'')
   \<and> stderr (Run exPercent exVersionCmd) = ''error: 100% failed''
   \<and> Version exPercent exOptions =
       Some ([exVersionCmd], '''',
             Some (FmtError ''failed to get snyk version: exit status 1,error: 100%!f(MISSING)ailed''))
   \<and> \<not> Contains ''failed to get snyk version: exit status 1,error: 100%!f(MISSING)ailed''
                  ''error: 100% failed''"
proof -
  have v: "Version exPercent exOptions =
       Some ([exVersionCmd], '''',
             Some (FmtError ''failed to get snyk version: exit status 1,error: 100%!f(MISSING)ailed''))"
    unfolding Version_def Let_def version_command
    by (simp add: exPercent_def exWorld_def exOptions_def exVersionCmd_def checkCommandErr_eval
        Errorf_def Sprintf_def isFlag_def notModelled_def)
  have c: "\<not> Contains ''failed to get snyk version: exit status 1,error: 100%!f(MISSING)ailed''
                  ''error: 100% failed''"
    by simp
  from v c show ?thesis
    by (simp add: exPercent_def)
qed

section \<open>What the version gate returns\<close>

lemma minimalSnykVersion_eval: "minimalSnykVersion v = Some (''>='' @ v)"
  by (simp add: minimalSnykVersion_def Sprintf_def isFlag_def notModelled_def)

lemma Errorf_older:
  "Errorf olderFormat [a, b] =
     Some (FmtError (''The Snyk version '' @ a @
       '' installed on your system is older as the one embedded by Docker Desktop ('' @ b @
       ''), using embedded Snyk version instead.\<newline>''))"
  by (simp add: Errorf_def Sprintf_def isFlag_def notModelled_def olderFormat_def)

lemma gate_eval:
  assumes "cmd = \<lparr>Ctx = None, Args = [binary, ''--version''], Env = [],
                   Stdout = Buffer 0, Stderr = Discard\<rparr>"
  shows "checkUserSnykBinaryVersion w lib sdv binary =
     Some ([cmd],
       (case runErr (Run w cmd) of
          Some e \<Rightarrow> (False, Some e)
        | None \<Rightarrow>
            (case NewVersion lib (cleanVersion (stdout (Run w cmd))) of
               Inl e \<Rightarrow> (False, Some e)
             | Inr ver \<Rightarrow>
                 (case NewConstraint lib (''>='' @ sdv) of
                    Inl e \<Rightarrow> (False, Some e)
                  | Inr c \<Rightarrow>
                      if Check lib c ver then (True, None)
                      else (False, Some (FmtError (''The Snyk version '' @ String lib ver @
                        '' installed on your system is older as the one embedded by Docker Desktop (''
                        @ ''>='' @ sdv @ ''), using embedded Snyk version instead.\<newline>'')))))))"
  unfolding checkUserSnykBinaryVersion_def Let_def assms [symmetric]
  by (simp add: minimalSnykVersion_eval Errorf_older split: option.split sum.split)

lemma cleanVersion_standalone: "cleanVersion ''2.3 (standalone)\<newline>'' = ''2.3''"
  by code_simp

lemma cleanVersion_no_version: "cleanVersion ''snyk: unknown option'' = ''snyk:''"
  by code_simp

lemma exSemver_versions:
  "NewVersion exSemver ''2.3'' = Inr (2, 3)"
  "NewVersion exSemver ''snyk:'' = Inl (SemverError ''Invalid Semantic Version'')"
  "NewConstraint exSemver ''>=2.0'' = Inr (2, 0)"
  "NewConstraint exSemver ''>=2.5'' = Inr (2, 5)"
  "NewConstraint exSemver ''>=unknown'' = Inl (SemverError ''improper constraint'')"
  "Check exSemver (2, 0) (2, 3)"
  "\<not> Check exSemver (2, 5) (2, 3)"
  "String exSemver (2, 3) = ''2.3''"
  by (simp_all add: exSemver_def exDigit_def)

lemma exGateCmd_eq:
  "exGateCmd = \<lparr>Ctx = None, Args = [''snyk'', ''--version''], Env = [],
                 Stdout = Buffer 0, Stderr = Discard\<rparr>"
  by (simp add: exGateCmd_def)

lemma exRuns:
  "Run exWorld cmd = \<lparr>stdout = ''2.3 (standalone)\<newline>'', stderr = '''',
                       runErr = Some (ExitError 1 ''exit status 1'')\<rparr>"
  "Run exClean cmd = \<lparr>stdout = ''2.3 (standalone)\<newline>'', stderr = '''', runErr = None\<rparr>"
  "Run exNoVersion cmd = \<lparr>stdout = ''snyk: unknown option'', stderr = '''', runErr = None\<rparr>"
  by (simp_all add: exWorld_def exClean_def exNoVersion_def)




text \<open>
  C10. The gate always returns, and its boolean is true exactly when its error is nil.
  Each way of failing gives false with a non-nil error: the subprocess's error, the
  error of parsing the first space-separated piece of the output as a version, the
  error of parsing \<open>>=\<close> and \<open>SnykDesktopVersion\<close> as a constraint, and the warning when
  the version does not match the constraint. A match gives true and nil.
\<close>

theorem gate_result_and_error:
  assumes "cmd = \<lparr>Ctx = None, Args = [binary, ''--version''], Env = [],
                   Stdout = Buffer 0, Stderr = Discard\<rparr>"
  shows "(\<exists>b e. checkUserSnykBinaryVersion w lib sdv binary = Some ([cmd], b, e) \<and> b = (e = None))
       \<and> (runErr (Run w cmd) = Some x
            \<longrightarrow> checkUserSnykBinaryVersion w lib sdv binary = Some ([cmd], False, Some x))
       \<and> (runErr (Run w cmd) = None
            \<and> NewVersion lib (cleanVersion (stdout (Run w cmd))) = Inl x
            \<longrightarrow> checkUserSnykBinaryVersion w lib sdv binary = Some ([cmd], False, Some x))
       \<and> (runErr (Run w cmd) = None
            \<and> NewVersion lib (cleanVersion (stdout (Run w cmd))) = Inr v
            \<and> NewConstraint lib (''>='' @ sdv) = Inl x
            \<longrightarrow> checkUserSnykBinaryVersion w lib sdv binary = Some ([cmd], False, Some x))
       \<and> (runErr (Run w cmd) = None
            \<and> NewVersion lib (cleanVersion (stdout (Run w cmd))) = Inr v
            \<and> NewConstraint lib (''>='' @ sdv) = Inr c \<and> \<not> Check lib c v
            \<longrightarrow> (\<exists>y. checkUserSnykBinaryVersion w lib sdv binary = Some ([cmd], False, Some y)))
       \<and> (runErr (Run w cmd) = None
            \<and> NewVersion lib (cleanVersion (stdout (Run w cmd))) = Inr v
            \<and> NewConstraint lib (''>='' @ sdv) = Inr c \<and> Check lib c v
            \<longrightarrow> checkUserSnykBinaryVersion w lib sdv binary = Some ([cmd], True, None))"
proof -
  have "\<exists>b e. checkUserSnykBinaryVersion w lib sdv binary = Some ([cmd], b, e) \<and> b = (e = None)"
    by (simp add: gate_eval [OF assms] split: option.split sum.split)
  then show ?thesis
    by (simp add: gate_eval [OF assms])
qed

theorem gate_result_and_error_witness:
  "runErr (Run exWorld exGateCmd) = Some (ExitError 1 ''exit status 1'')
   \<and> checkUserSnykBinaryVersion exWorld exSemver ''2.0'' ''snyk'' =
       Some ([exGateCmd], False, Some (ExitError 1 ''exit status 1''))
   \<and> runErr (Run exNoVersion exGateCmd) = None
   \<and> NewVersion exSemver (cleanVersion (stdout (Run exNoVersion exGateCmd))) =
       Inl (SemverError ''Invalid Semantic Version'')
   \<and> checkUserSnykBinaryVersion exNoVersion exSemver ''2.0'' ''snyk'' =
       Some ([exGateCmd], False, Some (SemverError ''Invalid Semantic Version''))
   \<and> runErr (Run exClean exGateCmd) = None
   \<and> NewVersion exSemver (cleanVersion (stdout (Run exClean exGateCmd))) = Inr (2, 3)
   \<and> NewConstraint exSemver (''>='' @ ''unknown'') = Inl (SemverError ''improper constraint'')
   \<and> checkUserSnykBinaryVersion exClean exSemver ''unknown'' ''snyk'' =
       Some ([exGateCmd], False, Some (SemverError ''improper constraint''))
   \<and> NewConstraint exSemver (''>='' @ ''2.5'') = Inr (2, 5) \<and> \<not> Check exSemver (2, 5) (2, 3)
   \<and> (\<exists>y. checkUserSnykBinaryVersion exClean exSemver ''2.5'' ''snyk'' =
             Some ([exGateCmd], False, Some y))
   \<and> NewConstraint exSemver (''>='' @ ''2.0'') = Inr (2, 0) \<and> Check exSemver (2, 0) (2, 3)
   \<and> checkUserSnykBinaryVersion exClean exSemver ''2.0'' ''snyk'' = Some ([exGateCmd], True, None)"
proof -
  have r0: "runErr (Run exWorld exGateCmd) = Some (ExitError 1 ''exit status 1'')"
    and r1: "runErr (Run exNoVersion exGateCmd) = None"
    and r2: "runErr (Run exClean exGateCmd) = None"
    by (simp_all add: exRuns)
  have v1: "NewVersion exSemver (cleanVersion (stdout (Run exNoVersion exGateCmd))) =
              Inl (SemverError ''Invalid Semantic Version'')"
    by (simp add: exRuns cleanVersion_no_version exSemver_versions)
  have v2: "NewVersion exSemver (cleanVersion (stdout (Run exClean exGateCmd))) = Inr (2, 3)"
    by (simp add: exRuns cleanVersion_standalone exSemver_versions)
  have c0: "NewConstraint exSemver (''>='' @ ''2.0'') = Inr (2, 0)"
    and c5: "NewConstraint exSemver (''>='' @ ''2.5'') = Inr (2, 5)"
    and cu: "NewConstraint exSemver (''>='' @ ''unknown'') = Inl (SemverError ''improper constraint'')"
    by (simp_all add: exSemver_versions)
  have k0: "Check exSemver (2, 0) (2, 3)" and k5: "\<not> Check exSemver (2, 5) (2, 3)"
    by (simp_all add: exSemver_versions)
  have g0: "checkUserSnykBinaryVersion exWorld exSemver ''2.0'' ''snyk'' =
       Some ([exGateCmd], False, Some (ExitError 1 ''exit status 1''))"
    using gate_result_and_error [OF exGateCmd_eq, where w = exWorld and lib = exSemver
        and sdv = "''2.0''" and x = "ExitError 1 ''exit status 1''"] r0
    by simp
  have g1: "checkUserSnykBinaryVersion exNoVersion exSemver ''2.0'' ''snyk'' =
       Some ([exGateCmd], False, Some (SemverError ''Invalid Semantic Version''))"
    using gate_result_and_error [OF exGateCmd_eq, where w = exNoVersion and lib = exSemver
        and sdv = "''2.0''" and x = "SemverError ''Invalid Semantic Version''"] r1 v1
    by simp
  have g2: "checkUserSnykBinaryVersion exClean exSemver ''unknown'' ''snyk'' =
       Some ([exGateCmd], False, Some (SemverError ''improper constraint''))"
    using gate_result_and_error [OF exGateCmd_eq, where w = exClean and lib = exSemver
        and sdv = "''unknown''" and x = "SemverError ''improper constraint''" and v = "(2, 3)"]
      r2 v2 cu
    by simp
  have g3: "\<exists>y. checkUserSnykBinaryVersion exClean exSemver ''2.5'' ''snyk'' =
             Some ([exGateCmd], False, Some y)"
    using gate_result_and_error [OF exGateCmd_eq, where w = exClean and lib = exSemver
        and sdv = "''2.5''" and v = "(2, 3)" and c = "(2, 5)"]
      r2 v2 c5 k5
    by simp
  have g4: "checkUserSnykBinaryVersion exClean exSemver ''2.0'' ''snyk'' =
              Some ([exGateCmd], True, None)"
    using gate_result_and_error [OF exGateCmd_eq, where w = exClean and lib = exSemver
        and sdv = "''2.0''" and v = "(2, 3)" and c = "(2, 0)"]
      r2 v2 c0 k0
    by simp
  from r0 r1 r2 v1 v2 c0 c5 cu k0 k5 g0 g1 g2 g3 g4 show ?thesis
    by simp
qed

end
